theory Spec2Isabelle
  imports Complex_Main "HOL-Library.Multiset" "HOL-Library.Log_Nat"
begin

section \<open>Conventions\<close>

text \<open>
  The optimizer is written in Python. Python floats are modelled as real numbers (no
  infinities), Python integers as \<open>int\<close>, lists as lists. Console output (\<open>print\<close>)
  is not part of any returned value and is left out. Every \<open>raise\<close> that a modelled
  function can reach is a value of \<open>py_error\<close>.

  Strings are \<open>string\<close>: a character stands for the code point of the same number, so
  the strings of the model are the Python strings over the code points 0 to 255.

  The valuation formulas are modelled in exact arithmetic. The route scores, which are
  compared between routes, are modelled with rounding: every float operation there is
  the exact operation followed by the rounding function \<open>fl\<close>, which the definitions
  take as an argument. The doubles' rounding to nearest is one such function, and it is
  monotone; the identity is exact arithmetic.
\<close>

datatype py_error = ValueError | OverflowError | TypeError | ApiError

text \<open>
  \<open>list.sort(key=k, reverse=True)\<close> orders by descending key and keeps elements with
  equal keys in their original order; \<open>list.sort(key=k)\<close> is the ascending stable sort.
\<close>

definition sort_desc :: "('a \<Rightarrow> real) \<Rightarrow> 'a list \<Rightarrow> 'a list" where
  "sort_desc k xs = sort_key (\<lambda>x. - k x) xs"

section \<open>Value calculator (calculator.py)\<close>

record RedemptionOption =
  otype :: string
  name :: string
  miles_cost :: int
  cash_equivalent :: real
  taxes_fees :: real
  description :: string

definition net_cash_value :: "RedemptionOption \<Rightarrow> real" where
  "net_cash_value self = cash_equivalent self - taxes_fees self"

definition value_per_mile :: "RedemptionOption \<Rightarrow> real" where
  "value_per_mile self =
     (if miles_cost self \<le> 0 then 0
      else (net_cash_value self / real_of_int (miles_cost self)) * 100)"

text \<open>\<open>RedemptionCalculator.__init__\<close> sets the threshold; nothing reassigns it.\<close>

definition minimum_value_threshold :: real where
  "minimum_value_threshold = 0.5"

text \<open>
  The three calculators return dictionaries with different keys. One record holds the
  union of the keys; a key that a dictionary does not have is \<open>None\<close>.
\<close>

record calc_result =
  calc_type :: string
  calc_miles_cost :: "int option"
  calc_points_cost :: "int option"
  calc_cash_price :: "real option"
  calc_giftcard_value :: "real option"
  calc_taxes_fees :: real
  calc_net_value :: real
  calc_value_per_mile :: "real option"
  calc_value_per_point :: "real option"
  calc_is_good_value :: bool
  calc_savings_vs_cash :: real

definition calculate_flight_value :: "int \<Rightarrow> real \<Rightarrow> real \<Rightarrow> calc_result" where
  "calculate_flight_value miles_cost' cash_price taxes_fees' =
     (let net_value = cash_price - taxes_fees';
          vpm = (if miles_cost' > 0 then (net_value / real_of_int miles_cost') * 100 else 0)
      in \<lparr> calc_type = ''flight'',
           calc_miles_cost = Some miles_cost',
           calc_points_cost = None,
           calc_cash_price = Some cash_price,
           calc_giftcard_value = None,
           calc_taxes_fees = taxes_fees',
           calc_net_value = net_value,
           calc_value_per_mile = Some vpm,
           calc_value_per_point = None,
           calc_is_good_value = (vpm \<ge> minimum_value_threshold),
           calc_savings_vs_cash = net_value \<rparr>)"

definition calculate_hotel_value :: "int \<Rightarrow> real \<Rightarrow> real \<Rightarrow> calc_result" where
  "calculate_hotel_value points_cost cash_price taxes_fees' =
     (let net_value = cash_price - taxes_fees';
          vpp = (if points_cost > 0 then (net_value / real_of_int points_cost) * 100 else 0)
      in \<lparr> calc_type = ''hotel'',
           calc_miles_cost = None,
           calc_points_cost = Some points_cost,
           calc_cash_price = Some cash_price,
           calc_giftcard_value = None,
           calc_taxes_fees = taxes_fees',
           calc_net_value = net_value,
           calc_value_per_mile = None,
           calc_value_per_point = Some vpp,
           calc_is_good_value = (vpp \<ge> minimum_value_threshold),
           calc_savings_vs_cash = net_value \<rparr>)"

definition calculate_giftcard_value :: "int \<Rightarrow> real \<Rightarrow> calc_result" where
  "calculate_giftcard_value points_cost giftcard_value =
     (let vpp = (if points_cost > 0 then (giftcard_value / real_of_int points_cost) * 100 else 0)
      in \<lparr> calc_type = ''giftcard'',
           calc_miles_cost = None,
           calc_points_cost = Some points_cost,
           calc_cash_price = None,
           calc_giftcard_value = Some giftcard_value,
           calc_taxes_fees = 0,
           calc_net_value = giftcard_value,
           calc_value_per_mile = None,
           calc_value_per_point = Some vpp,
           calc_is_good_value = (vpp \<ge> minimum_value_threshold),
           calc_savings_vs_cash = giftcard_value \<rparr>)"

text \<open>\<open>d.get('value_per_mile', d.get('value_per_point', 0))\<close> on a calculation.\<close>

definition calc_value_per_unit :: "calc_result \<Rightarrow> real" where
  "calc_value_per_unit c =
     (case calc_value_per_mile c of
        Some v \<Rightarrow> v
      | None \<Rightarrow> (case calc_value_per_point c of Some v \<Rightarrow> v | None \<Rightarrow> 0))"

record comparison =
  cmp_option :: RedemptionOption
  cmp_calculation :: calc_result
  cmp_value_per_unit :: real

text \<open>
  The loop of \<open>compare_redemptions\<close>: an option whose type is none of the three handled
  ones takes the \<open>else: continue\<close> branch and appends nothing.
\<close>

fun comparisons_of :: "RedemptionOption list \<Rightarrow> comparison list" where
  "comparisons_of [] = []"
| "comparisons_of (option # rest) =
     (if otype option = ''flight'' then
        (let calc = calculate_flight_value (miles_cost option) (cash_equivalent option)
                      (taxes_fees option)
         in \<lparr> cmp_option = option, cmp_calculation = calc,
              cmp_value_per_unit = calc_value_per_unit calc \<rparr> # comparisons_of rest)
      else if otype option = ''hotel'' then
        (let calc = calculate_hotel_value (miles_cost option) (cash_equivalent option)
                      (taxes_fees option)
         in \<lparr> cmp_option = option, cmp_calculation = calc,
              cmp_value_per_unit = calc_value_per_unit calc \<rparr> # comparisons_of rest)
      else if otype option = ''giftcard'' then
        (let calc = calculate_giftcard_value (miles_cost option) (cash_equivalent option)
         in \<lparr> cmp_option = option, cmp_calculation = calc,
              cmp_value_per_unit = calc_value_per_unit calc \<rparr> # comparisons_of rest)
      else comparisons_of rest)"

definition compare_redemptions :: "RedemptionOption list \<Rightarrow> comparison list" where
  "compare_redemptions redemption_options =
     sort_desc cmp_value_per_unit (comparisons_of redemption_options)"

section \<open>Award cost model (route_optimizer.py)\<close>

record award_chart =
  zone_1 :: int
  zone_2 :: int
  zone_3 :: int
  zone_4 :: int
  zone_5 :: int

record award_charts =
  domestic :: award_chart
  international :: award_chart

definition load_award_charts :: award_charts where
  "load_award_charts =
     \<lparr> domestic = \<lparr> zone_1 = 7500, zone_2 = 12500, zone_3 = 20000, zone_4 = 25000,
                      zone_5 = 35000 \<rparr>,
       international = \<lparr> zone_1 = 30000, zone_2 = 40000, zone_3 = 50000, zone_4 = 60000,
                           zone_5 = 70000 \<rparr> \<rparr>"

definition distances :: "((string \<times> string) \<times> int) list" where
  "distances =
     [((''JFK'', ''LAX''), 2475),
      ((''JFK'', ''ORD''), 740),
      ((''JFK'', ''ATL''), 760),
      ((''JFK'', ''DFW''), 1389),
      ((''LAX'', ''ORD''), 1744),
      ((''LAX'', ''ATL''), 1947),
      ((''LAX'', ''DFW''), 1235),
      ((''ORD'', ''ATL''), 606),
      ((''ORD'', ''DFW''), 802),
      ((''ATL'', ''DFW''), 731)]"

definition calculate_distance :: "string \<Rightarrow> string \<Rightarrow> int" where
  "calculate_distance origin destination =
     (let route = (origin, destination);
          reverse_route = (destination, origin)
      in case map_of distances route of
           Some d \<Rightarrow> d
         | None \<Rightarrow> (case map_of distances reverse_route of
                       Some d \<Rightarrow> d
                     | None \<Rightarrow> 1000))"

definition get_award_cost :: "string \<Rightarrow> string \<Rightarrow> bool \<Rightarrow> int" where
  "get_award_cost origin destination is_international =
     (let distance = calculate_distance origin destination
      in if is_international then
           (let chart = international load_award_charts
            in if distance < 2000 then zone_1 chart
               else if distance < 4000 then zone_2 chart
               else if distance < 6000 then zone_3 chart
               else if distance < 8000 then zone_4 chart
               else zone_5 chart)
         else
           (let chart = domestic load_award_charts
            in if distance \<le> 500 then zone_1 chart
               else if distance \<le> 1000 then zone_2 chart
               else if distance \<le> 1500 then zone_3 chart
               else if distance \<le> 2000 then zone_4 chart
               else zone_5 chart))"

section \<open>Synthetic savings (route_optimizer.py)\<close>

record savings_analysis =
  sa_direct_cost :: real
  sa_layover_cost :: real
  savings :: real
  savings_percentage :: real
  is_worthwhile :: bool

definition calculate_synthetic_savings :: "real \<Rightarrow> real \<Rightarrow> savings_analysis" where
  "calculate_synthetic_savings direct_cost layover_cost =
     (let sv = direct_cost - layover_cost;
          pct = (if direct_cost > 0 then (sv / direct_cost) * 100 else 0)
      in \<lparr> sa_direct_cost = direct_cost,
           sa_layover_cost = layover_cost,
           savings = sv,
           savings_percentage = pct,
           is_worthwhile = (sv > 0 \<and> pct > 10) \<rparr>)"

section \<open>Python string and number helpers\<close>

text \<open>\<open>str(n)\<close> for an integer: decimal digits, with a minus sign when negative.\<close>

fun str_nat :: "nat \<Rightarrow> string" where
  "str_nat n = (if n < 10 then [char_of (48 + n)]
                else str_nat (n div 10) @ [char_of (48 + n mod 10)])"

definition str_int :: "int \<Rightarrow> string" where
  "str_int i = (if i < 0 then CHR ''-'' # str_nat (nat (- i)) else str_nat (nat i))"



text \<open>
  \<open>int(s)\<close> on a string: surrounding whitespace is stripped, one sign is allowed,
  then decimal digits, where single underscores may stand between digits. Anything
  else raises \<open>ValueError\<close>. Among the code points 0 to 255 the digits are \<open>0\<close> to
  \<open>9\<close>, and the whitespace that \<open>int\<close> strips is 9 to 13, 32, 133 and 160 (the
  separators 28 to 31 are not stripped). The interpreter's limit on the number of
  digits of newer Python versions is not modelled.
\<close>

definition is_digit :: "char \<Rightarrow> bool" where
  "is_digit c = (let n = (of_char c :: nat) in 48 \<le> n \<and> n \<le> 57)"

definition digit_val :: "char \<Rightarrow> nat" where
  "digit_val c = of_char c - 48"

definition is_space :: "char \<Rightarrow> bool" where
  "is_space c = (let n = (of_char c :: nat) in (9 \<le> n \<and> n \<le> 13) \<or> n = 32 \<or> n = 133 \<or> n = 160)"

definition strip :: "string \<Rightarrow> string" where
  "strip s = rev (dropWhile is_space (rev (dropWhile is_space s)))"

fun int_digits :: "nat \<Rightarrow> string \<Rightarrow> nat option" where
  "int_digits acc [] = Some acc"
| "int_digits acc (c # cs) =
     (if is_digit c then int_digits (acc * 10 + digit_val c) cs
      else if c = CHR ''_'' then
        (case cs of
           [] \<Rightarrow> None
         | d # ds \<Rightarrow> if is_digit d then int_digits (acc * 10 + digit_val d) ds else None)
      else None)"

definition py_int :: "string \<Rightarrow> py_error + int" where
  "py_int s =
     (let t = strip s;
          neg = (case t of [] \<Rightarrow> False | c # _ \<Rightarrow> c = CHR ''-'');
          u = (case t of [] \<Rightarrow> [] | c # r \<Rightarrow> if c = CHR ''-'' \<or> c = CHR ''+'' then r else t)
      in case u of
           [] \<Rightarrow> Inl ValueError
         | c # cs \<Rightarrow>
             if is_digit c then
               (case int_digits (digit_val c) cs of
                  None \<Rightarrow> Inl ValueError
                | Some n \<Rightarrow> Inr (if neg then - int n else int n))
             else Inl ValueError)"

text \<open>
  \<open>float(n)\<close> for an integer: \<open>n\<close> itself when it has at most 53 bits; otherwise
  the 53 leading bits, rounded to nearest with ties to the even mantissa, and
  \<open>OverflowError\<close> when the rounded value is beyond the largest double.
\<close>

definition py_float :: "int \<Rightarrow> py_error + real" where
  "py_float n =
     (let a = \<bar>n\<bar>;
          k = bitlen a - 53
      in if k \<le> 0 then Inr (real_of_int n)
         else
           (let p = 2 ^ nat k;
                q = a div p;
                r = a mod p;
                q' = (if 2 * r > p \<or> (2 * r = p \<and> odd q) then q + 1 else q);
                v = q' * p
            in if v \<ge> 2 ^ 1024 then Inl OverflowError
               else Inr (real_of_int (sgn n * v))))"

section \<open>Flight-data source (amadeus_client.py)\<close>

text \<open>Raw segment dictionaries: nested dictionaries of strings.\<close>

datatype json = JStr string | JObj "(string \<times> json) list"

text \<open>
  A \<open>datetime.date\<close>. \<open>isoformat()\<close>, \<open>str()\<close> and \<open>strftime('%Y-%m-%d')\<close> all give
  \<open>YYYY-MM-DD\<close> (for \<open>strftime\<close>: for the four-digit years).
\<close>

record date =
  year :: nat
  month :: nat
  day :: nat

definition zero_pad :: "nat \<Rightarrow> string \<Rightarrow> string" where
  "zero_pad w s = replicate (w - length s) CHR ''0'' @ s"

definition isoformat :: "date \<Rightarrow> string" where
  "isoformat d = zero_pad 4 (str_nat (year d)) @ ''-'' @ zero_pad 2 (str_nat (month d)) @ ''-''
                   @ zero_pad 2 (str_nat (day d))"

record FlightOffer =
  offer_id :: string
  offer_origin :: string
  offer_destination :: string
  offer_departure_date :: string
  offer_return_date :: "string option"
  price :: real
  currency :: string
  offer_airline :: string
  flight_number :: string
  duration :: string
  stops :: int
  cabin_class :: string
  offer_segments :: "json list"

text \<open>
  The live service is outside the program: it is a function from the request to either
  an exception or the offers that \<open>_parse_flight_offers\<close> builds from the response.
  A client without credentials has no service (\<open>self.client is None\<close>).
\<close>

type_synonym live_api =
  "string \<Rightarrow> string \<Rightarrow> date \<Rightarrow> date option \<Rightarrow> int \<Rightarrow> int \<Rightarrow> py_error + FlightOffer list"

record AmadeusClient =
  client :: "live_api option"

definition is_available :: "AmadeusClient \<Rightarrow> bool" where
  "is_available self = (client self \<noteq> None)"

definition client_distances :: "((string \<times> string) \<times> int) list" where
  "client_distances =
     [((''JFK'', ''LAX''), 2475),
      ((''JFK'', ''ORD''), 740),
      ((''JFK'', ''ATL''), 760),
      ((''JFK'', ''DFW''), 1389),
      ((''LAX'', ''ORD''), 1744),
      ((''LAX'', ''ATL''), 1947),
      ((''LAX'', ''DFW''), 1235),
      ((''ORD'', ''ATL''), 606),
      ((''ORD'', ''DFW''), 802),
      ((''ATL'', ''DFW''), 731)]"

definition client_calculate_distance :: "string \<Rightarrow> string \<Rightarrow> int" where
  "client_calculate_distance origin destination =
     (let route = (origin, destination);
          reverse_route = (destination, origin)
      in case map_of client_distances route of
           Some d \<Rightarrow> d
         | None \<Rightarrow> (case map_of client_distances reverse_route of
                       Some d \<Rightarrow> d
                     | None \<Rightarrow> 1000))"

definition get_mock_flights ::
  "string \<Rightarrow> string \<Rightarrow> date \<Rightarrow> date option \<Rightarrow> FlightOffer list" where
  "get_mock_flights origin destination departure_date return_date =
     (let distance = client_calculate_distance origin destination;
          base_price = real_of_int distance * 0.15;
          dep = isoformat departure_date
      in [\<lparr> offer_id = ''mock_1'',
            offer_origin = origin,
            offer_destination = destination,
            offer_departure_date = dep,
            offer_return_date = map_option isoformat return_date,
            price = base_price * 0.8,
            currency = ''USD'',
            offer_airline = ''AA'',
            flight_number = ''123'',
            duration = ''PT'' @ str_int (distance div 500 + 1) @ ''H'',
            stops = 0,
            cabin_class = ''ECONOMY'',
            offer_segments =
              [JObj [(''departure'', JObj [(''iataCode'', JStr origin),
                                           (''at'', JStr (dep @ ''T10:00:00''))]),
                     (''arrival'', JObj [(''iataCode'', JStr destination),
                                         (''at'', JStr (dep @ ''T13:00:00''))]),
                     (''carrierCode'', JStr ''AA''),
                     (''number'', JStr ''123'')]] \<rparr>,
          \<lparr> offer_id = ''mock_2'',
            offer_origin = origin,
            offer_destination = destination,
            offer_departure_date = dep,
            offer_return_date = map_option isoformat return_date,
            price = base_price * 1.5,
            currency = ''USD'',
            offer_airline = ''DL'',
            flight_number = ''456'',
            duration = ''PT'' @ str_int (distance div 500 + 1) @ ''H'',
            stops = 1,
            cabin_class = ''PREMIUM_ECONOMY'',
            offer_segments =
              [JObj [(''departure'', JObj [(''iataCode'', JStr origin),
                                           (''at'', JStr (dep @ ''T08:00:00''))]),
                     (''arrival'', JObj [(''iataCode'', JStr ''ORD''),
                                         (''at'', JStr (dep @ ''T10:00:00''))]),
                     (''carrierCode'', JStr ''DL''),
                     (''number'', JStr ''456'')],
               JObj [(''departure'', JObj [(''iataCode'', JStr ''ORD''),
                                           (''at'', JStr (dep @ ''T11:30:00''))]),
                     (''arrival'', JObj [(''iataCode'', JStr destination),
                                         (''at'', JStr (dep @ ''T14:30:00''))]),
                     (''carrierCode'', JStr ''DL''),
                     (''number'', JStr ''789'')]] \<rparr>])"

text \<open>
  \<open>search_flights\<close>: without a service, and on any exception of the service, the mock
  offers are returned.
\<close>

definition search_flights ::
  "AmadeusClient \<Rightarrow> string \<Rightarrow> string \<Rightarrow> date \<Rightarrow> date option \<Rightarrow> int \<Rightarrow> int \<Rightarrow> FlightOffer list"
  where
  "search_flights self origin destination departure_date return_date adults max_offers =
     (if \<not> is_available self
      then get_mock_flights origin destination departure_date return_date
      else (case client self of
              None \<Rightarrow> get_mock_flights origin destination departure_date return_date
            | Some api \<Rightarrow>
                (case api origin destination departure_date return_date adults max_offers of
                   Inl e \<Rightarrow> get_mock_flights origin destination departure_date return_date
                 | Inr offers \<Rightarrow> offers)))"

section \<open>Route construction and ranking (route_optimizer.py)\<close>

record FlightRoute =
  route_origin :: string
  route_destination :: string
  route_type :: string
  total_miles :: int
  total_fees :: real
  route_segments :: "json list"
  duration_hours :: real
  layover_airports :: "string list option"
  route_cash_price :: real
  route_airline :: string

text \<open>\<open>total_miles + total_fees\<close>: the integer is converted to a float, then added.\<close>

definition total_cost :: "(real \<Rightarrow> real) \<Rightarrow> FlightRoute \<Rightarrow> real" where
  "total_cost fl self = fl (fl (real_of_int (total_miles self)) + total_fees self)"



definition major_hubs :: "string list" where
  "major_hubs = [''ATL'', ''DFW'', ''ORD'', ''LAX'', ''JFK'', ''LHR'', ''CDG'', ''NRT'', ''HKG'', ''SIN'']"

definition regional_hubs :: "string list" where
  "regional_hubs = [''DEN'', ''MIA'', ''SEA'', ''SFO'', ''BOS'', ''IAH'', ''MSP'', ''DTW'', ''PHX'', ''LAS'']"

definition all_hubs :: "string list" where
  "all_hubs = major_hubs @ regional_hubs"

text \<open>
  \<open>_parse_duration\<close>: the body of the \<open>try\<close> block first, where every exception is a
  value, then the function itself, whose bare \<open>except\<close> turns each of them into 5.0.
\<close>

definition parse_duration_try :: "string \<Rightarrow> py_error + real" where
  "parse_duration_try duration_str =
     (let s = (if take 2 duration_str = ''PT'' then drop 2 duration_str else duration_str)
      in if CHR ''H'' \<in> set s then
           (case py_int (takeWhile (\<lambda>c. c \<noteq> CHR ''H'') s) of
              Inl e \<Rightarrow> Inl e
            | Inr hours \<Rightarrow> py_float hours)
         else py_float 0)"

definition parse_duration :: "string \<Rightarrow> real" where
  "parse_duration duration_str =
     (case parse_duration_try duration_str of Inl e \<Rightarrow> 5.0 | Inr hours \<Rightarrow> hours)"

fun direct_routes_of :: "string \<Rightarrow> string \<Rightarrow> FlightOffer list \<Rightarrow> FlightRoute list" where
  "direct_routes_of origin destination [] = []"
| "direct_routes_of origin destination (offer # offers) =
     (if stops offer = 0 then
        (let distance = calculate_distance origin destination;
             is_international = (distance > 2000);
             award_cost = get_award_cost origin destination is_international;
             dur = parse_duration (duration offer)
         in \<lparr> route_origin = origin,
              route_destination = destination,
              route_type = ''direct'',
              total_miles = award_cost,
              total_fees = 50.0,
              route_segments = offer_segments offer,
              duration_hours = dur,
              layover_airports = Some [],
              route_cash_price = price offer,
              route_airline = offer_airline offer \<rparr>
            # direct_routes_of origin destination offers)
      else direct_routes_of origin destination offers)"

definition find_direct_routes ::
  "AmadeusClient \<Rightarrow> string \<Rightarrow> string \<Rightarrow> date \<Rightarrow> FlightRoute list" where
  "find_direct_routes self origin destination travel_date =
     direct_routes_of origin destination
       (search_flights self origin destination travel_date None 1 5)"

fun layover_routes_of ::
  "AmadeusClient \<Rightarrow> string \<Rightarrow> string \<Rightarrow> date \<Rightarrow> string list \<Rightarrow> FlightRoute list" where
  "layover_routes_of self origin destination travel_date [] = []"
| "layover_routes_of self origin destination travel_date (hub # hubs) =
     (if hub \<in> set [origin, destination]
      then layover_routes_of self origin destination travel_date hubs
      else
        (let segment1_offers = search_flights self origin hub travel_date None 1 1;
             segment2_offers = search_flights self hub destination travel_date None 1 1
         in if segment1_offers \<noteq> [] \<and> segment2_offers \<noteq> [] then
              (let segment1 = hd segment1_offers;
                   segment2 = hd segment2_offers;
                   segment1_cost = get_award_cost origin hub False;
                   segment2_cost = get_award_cost hub destination False;
                   total = segment1_cost + segment2_cost;
                   duration1 = parse_duration (duration segment1);
                   duration2 = parse_duration (duration segment2);
                   total_duration = duration1 + duration2 + 2.0;
                   combined_segments = offer_segments segment1 @ offer_segments segment2
               in \<lparr> route_origin = origin,
                    route_destination = destination,
                    route_type = ''layover'',
                    total_miles = total,
                    total_fees = 75.0,
                    route_segments = combined_segments,
                    duration_hours = total_duration,
                    layover_airports = Some [hub],
                    route_cash_price = price segment1 + price segment2,
                    route_airline = offer_airline segment1 @ ''/'' @ offer_airline segment2 \<rparr>
                  # layover_routes_of self origin destination travel_date hubs)
            else layover_routes_of self origin destination travel_date hubs))"

definition find_layover_routes ::
  "AmadeusClient \<Rightarrow> string \<Rightarrow> string \<Rightarrow> date \<Rightarrow> string list option \<Rightarrow> FlightRoute list"
  where
  "find_layover_routes self origin destination travel_date hub_airports =
     layover_routes_of self origin destination travel_date
       (case hub_airports of None \<Rightarrow> take 3 major_hubs | Some hubs \<Rightarrow> hubs)"

record value_analysis =
  va_route :: FlightRoute
  va_total_cost :: real
  cost_per_mile :: real
  efficiency_score :: real
  complexity_penalty :: real
  final_score :: real

text \<open>
  The body of the loop of \<open>rank_routes_by_value\<close>. The literal 1000 is an integer that
  converts exactly; the literal 0.1 is the double nearest to it.
\<close>

definition analyse_route :: "(real \<Rightarrow> real) \<Rightarrow> FlightRoute \<Rightarrow> value_analysis" where
  "analyse_route fl r =
     (let eff = (if total_cost fl r > 0 then fl (1000 / total_cost fl r) else 0);
          pen = fl (fl (real (length (route_segments r))) * fl 0.1)
      in \<lparr> va_route = r,
           va_total_cost = total_cost fl r,
           cost_per_mile = (if duration_hours r > 0
                            then fl (fl (real_of_int (total_miles r)) / duration_hours r)
                            else 0),
           efficiency_score = eff,
           complexity_penalty = pen,
           final_score = fl (eff - pen) \<rparr>)"

definition rank_routes_by_value ::
  "(real \<Rightarrow> real) \<Rightarrow> FlightRoute list \<Rightarrow> value_analysis list" where
  "rank_routes_by_value fl routes_list =
     sort_desc final_score (map (analyse_route fl) routes_list)"





section \<open>Recommendation aggregator (recommender.py)\<close>



text \<open>
  The option dictionaries of the pool. Flight options carry \<open>value_per_mile\<close> and
  \<open>cost_miles\<close>, the others \<open>value_per_point\<close> and \<open>cost_points\<close>; a key that a
  dictionary does not have is \<open>None\<close>. Every dictionary built below has \<open>type\<close>,
  \<open>cash_equivalent\<close>, \<open>fees\<close>, \<open>savings_vs_cash\<close> and \<open>is_affordable\<close>, so the
  defaults of \<open>get('fees', 0)\<close> and \<open>get('is_affordable', False)\<close> are never taken.
\<close>

record rec_option =
  ro_type :: string
  subtype :: "string option"
  cost_miles :: "int option"
  cost_points :: "int option"
  ro_cash_equivalent :: real
  fees :: real
  ro_value_per_mile :: "real option"
  ro_value_per_point :: "real option"
  route :: "string option"
  ro_savings_vs_cash :: real
  ro_duration_hours :: "real option"
  ro_segments :: "json list option"
  ro_airline :: "string option"
  hotel_chain :: "string option"
  category :: "string option"
  location :: "string option"
  merchant :: "string option"
  program :: "string option"
  is_affordable :: bool




















section \<open>Sample data\<close>

text \<open>The options of \<open>analyze_sample_data\<close>, and a statement credit beside them.\<close>

definition sample_flight :: RedemptionOption where
  "sample_flight =
     \<lparr> otype = ''flight'', name = ''JFK to LAX Direct'', miles_cost = 25000,
       cash_equivalent = 400, taxes_fees = 50,
       description = ''American Airlines direct flight'' \<rparr>"

definition sample_hotel :: RedemptionOption where
  "sample_hotel =
     \<lparr> otype = ''hotel'', name = ''Marriott Hotel Night'', miles_cost = 30000,
       cash_equivalent = 300, taxes_fees = 0,
       description = ''Marriott Bonvoy redemption'' \<rparr>"

definition sample_giftcard :: RedemptionOption where
  "sample_giftcard =
     \<lparr> otype = ''giftcard'', name = ''Amazon Gift Card'', miles_cost = 10000,
       cash_equivalent = 100, taxes_fees = 0,
       description = ''Amazon gift card redemption'' \<rparr>"

definition sample_statement_credit :: RedemptionOption where
  "sample_statement_credit =
     \<lparr> otype = ''statement_credit'', name = ''Pay Yourself Back'', miles_cost = 10000,
       cash_equivalent = 125, taxes_fees = 0, description = [] \<rparr>"

definition sample_date :: date where
  "sample_date = \<lparr> year = 2024, month = 3, day = 7 \<rparr>"

text \<open>A client without credentials, and one whose service fails on every request.\<close>

definition offline_client :: AmadeusClient where
  "offline_client = \<lparr> client = None \<rparr>"


text \<open>Routes without segments: one free of charge, one for 1000 miles, one for 2000.\<close>

definition free_route :: FlightRoute where
  "free_route =
     \<lparr> route_origin = ''JFK'', route_destination = ''LAX'', route_type = ''direct'',
       total_miles = 0, total_fees = 0, route_segments = [], duration_hours = 5,
       layover_airports = Some [], route_cash_price = 0, route_airline = ''AA'' \<rparr>"

definition cheap_route :: FlightRoute where
  "cheap_route = free_route \<lparr> total_miles := 1000 \<rparr>"

definition dear_route :: FlightRoute where
  "dear_route = free_route \<lparr> total_miles := 2000 \<rparr>"


text \<open>Exact arithmetic, and an arithmetic that rounds up to whole numbers.\<close>

definition exact :: "real \<Rightarrow> real" where
  "exact v = v"

definition whole :: "real \<Rightarrow> real" where
  "whole v = real_of_int \<lceil>v\<rceil>"

section \<open>Properties\<close>

subsection \<open>Sorting helpers\<close>

lemma sort_desc_sorted: "sorted_wrt (\<lambda>x y. k x \<ge> k y) (sort_desc k xs)"
proof -
  have "sorted (map (\<lambda>x. - k x) (sort_key (\<lambda>x. - k x) xs))" by (rule sorted_sort_key)
  then show ?thesis by (simp add: sort_desc_def sorted_map)
qed

lemma mset_sort_desc: "mset (sort_desc k xs) = mset xs"
  by (simp add: sort_desc_def)

lemma set_sort_desc: "set (sort_desc k xs) = set xs"
  by (simp add: sort_desc_def)

lemma length_sort_desc: "length (sort_desc k xs) = length xs"
  by (simp add: sort_desc_def)

lemma sort_desc_stable: "filter (\<lambda>y. k y = v) (sort_desc k xs) = filter (\<lambda>y. k y = v) xs"
proof -
  have "filter (\<lambda>y. - k y = - v) (sort_key (\<lambda>x. - k x) xs) = filter (\<lambda>y. - k y = - v) xs"
    by (rule sort_key_stable)
  then show ?thesis by (simp add: sort_desc_def)
qed

subsection \<open>Valuation\<close>

text \<open>
  C1 (as stated, refuted): the claim clamps the net value at zero. With 100 miles, a cash
  price of 10 and fees of 50 the code returns -40 cents per mile, where the claimed
  formula gives 0.
\<close>

theorem calculate_flight_value_clamp_counterexample:
  "calc_value_per_mile (calculate_flight_value 100 10 50) = Some (- 40)
   \<and> max 0 ((10::real) - 50) / real_of_int 100 * 100 = 0"
  by (simp add: calculate_flight_value_def Let_def)

text \<open>
  C1 (amended): for a positive cost, \<open>calculate_flight_value\<close> returns the value per
  mile (cash price - fees) / cost * 100, with no clamping; for a cost of zero or below it
  returns 0. The \<open>value_per_mile\<close> property of a \<open>RedemptionOption\<close> computes the same.
  The value is not negative whenever the fees do not exceed the cash price.
\<close>

theorem calculate_flight_value_per_unit:
  "calc_value_per_mile (calculate_flight_value m c t) =
     Some (if m > 0 then (c - t) / real_of_int m * 100 else 0)
   \<and> value_per_mile opt =
       (if miles_cost opt > 0
        then (cash_equivalent opt - taxes_fees opt) / real_of_int (miles_cost opt) * 100 else 0)
   \<and> (t \<le> c \<longrightarrow> 0 \<le> the (calc_value_per_mile (calculate_flight_value m c t)))
   \<and> (taxes_fees opt \<le> cash_equivalent opt \<longrightarrow> 0 \<le> value_per_mile opt)"
  by (simp add: calculate_flight_value_def value_per_mile_def net_cash_value_def Let_def)

theorem calculate_flight_value_per_unit_witness:
  "(50::real) \<le> 400
   \<and> taxes_fees sample_flight \<le> cash_equivalent sample_flight
   \<and> calc_value_per_mile (calculate_flight_value 25000 400 50) = Some (7 / 5)
   \<and> value_per_mile sample_flight = 7 / 5
   \<and> calc_value_per_mile (calculate_flight_value 0 400 50) = Some 0"
  using calculate_flight_value_per_unit [of 25000 400 50 sample_flight]
        calculate_flight_value_per_unit [of 0 400 50 sample_flight]
  by (simp add: sample_flight_def)

subsection \<open>Comparison of redemption options\<close>

lemma comparisons_of_options:
  "map cmp_option (comparisons_of opts) =
     filter (\<lambda>x. otype x = ''flight'' \<or> otype x = ''hotel'' \<or> otype x = ''giftcard'') opts"
  by (induction opts) (simp_all add: Let_def)

lemma comparisons_of_value:
  "x \<in> set (comparisons_of opts) \<Longrightarrow>
     cmp_value_per_unit x =
       (if miles_cost (cmp_option x) \<le> 0 then 0
        else if otype (cmp_option x) = ''giftcard''
          then cash_equivalent (cmp_option x) / real_of_int (miles_cost (cmp_option x)) * 100
        else (cash_equivalent (cmp_option x) - taxes_fees (cmp_option x))
               / real_of_int (miles_cost (cmp_option x)) * 100)"
  by (induction opts)
     (auto simp: Let_def calc_value_per_unit_def calculate_flight_value_def
        calculate_hotel_value_def calculate_giftcard_value_def split: if_splits)

text \<open>
  C3 (as stated, refuted): a statement credit is one of the four option types, and
  \<open>compare_redemptions\<close> returns no entry for it.
\<close>

theorem compare_redemptions_statement_credit_counterexample:
  "otype sample_statement_credit = ''statement_credit''
   \<and> compare_redemptions [sample_statement_credit] = []
   \<and> length (compare_redemptions [sample_statement_credit]) \<noteq> length [sample_statement_credit]"
  by (simp add: compare_redemptions_def sort_desc_def sample_statement_credit_def)

text \<open>
  C3 (amended): \<open>compare_redemptions\<close> computes a value record for every option of type
  flight, hotel or giftcard, and skips every other option (statement credits among
  them). Before sorting, the entries stand in input order, one per handled option; the
  result is a permutation of them, sorted descending by \<open>value_per_unit\<close>, and entries of
  equal value keep their input order. The value of an entry is (cash - fees) / cost * 100
  for flights and hotels and cash / cost * 100 for gift cards, and 0 for a cost of zero
  or below.
\<close>

theorem compare_redemptions_ranked:
  "map cmp_option (comparisons_of opts) =
     filter (\<lambda>x. otype x = ''flight'' \<or> otype x = ''hotel'' \<or> otype x = ''giftcard'') opts
   \<and> mset (compare_redemptions opts) = mset (comparisons_of opts)
   \<and> length (compare_redemptions opts) =
       length (filter (\<lambda>x. otype x = ''flight'' \<or> otype x = ''hotel'' \<or> otype x = ''giftcard'') opts)
   \<and> sorted_wrt (\<lambda>x y. cmp_value_per_unit x \<ge> cmp_value_per_unit y) (compare_redemptions opts)
   \<and> filter (\<lambda>x. cmp_value_per_unit x = v) (compare_redemptions opts) =
       filter (\<lambda>x. cmp_value_per_unit x = v) (comparisons_of opts)
   \<and> (\<forall>x \<in> set (compare_redemptions opts).
        cmp_value_per_unit x =
          (if miles_cost (cmp_option x) \<le> 0 then 0
           else if otype (cmp_option x) = ''giftcard''
             then cash_equivalent (cmp_option x) / real_of_int (miles_cost (cmp_option x)) * 100
           else (cash_equivalent (cmp_option x) - taxes_fees (cmp_option x))
                  / real_of_int (miles_cost (cmp_option x)) * 100))"
proof -
  have len: "length (compare_redemptions opts) = length (map cmp_option (comparisons_of opts))"
    by (simp add: compare_redemptions_def length_sort_desc)
  show ?thesis
    unfolding len
    by (simp add: comparisons_of_options compare_redemptions_def mset_sort_desc
          sort_desc_sorted sort_desc_stable set_sort_desc comparisons_of_value)
qed

theorem compare_redemptions_ranked_witness:
  "mset (compare_redemptions
           [sample_statement_credit, sample_giftcard, sample_hotel, sample_flight])
     = mset (comparisons_of
               [sample_statement_credit, sample_giftcard, sample_hotel, sample_flight])
   \<and> map cmp_option
       (compare_redemptions [sample_statement_credit, sample_giftcard, sample_hotel, sample_flight])
     = [sample_flight, sample_giftcard, sample_hotel]
   \<and> map cmp_value_per_unit
       (compare_redemptions [sample_statement_credit, sample_giftcard, sample_hotel, sample_flight])
     = [7 / 5, 1, 1]
   \<and> map cmp_option (compare_redemptions [sample_flight]) = [sample_flight]
   \<and> map cmp_value_per_unit (compare_redemptions [sample_flight]) = [7 / 5]"
proof -
  have perm: "mset (compare_redemptions
           [sample_statement_credit, sample_giftcard, sample_hotel, sample_flight])
     = mset (comparisons_of
               [sample_statement_credit, sample_giftcard, sample_hotel, sample_flight])"
    using compare_redemptions_ranked
            [of "[sample_statement_credit, sample_giftcard, sample_hotel, sample_flight]" 1]
    by (elim conjE)
  have run: "map cmp_option
       (compare_redemptions [sample_statement_credit, sample_giftcard, sample_hotel, sample_flight])
     = [sample_flight, sample_giftcard, sample_hotel]
   \<and> map cmp_value_per_unit
       (compare_redemptions [sample_statement_credit, sample_giftcard, sample_hotel, sample_flight])
     = [7 / 5, 1, 1]
   \<and> map cmp_option (compare_redemptions [sample_flight]) = [sample_flight]
   \<and> map cmp_value_per_unit (compare_redemptions [sample_flight]) = [7 / 5]"
    by (simp add: compare_redemptions_def sort_desc_def sample_flight_def sample_hotel_def
          sample_giftcard_def sample_statement_credit_def Let_def calc_value_per_unit_def
          calculate_flight_value_def calculate_hotel_value_def calculate_giftcard_value_def)
  from perm run show ?thesis by (rule conjI)
qed

subsection \<open>Award cost model\<close>

lemma calculate_distance_sym: "calculate_distance a b = calculate_distance b a"
  by (auto simp: calculate_distance_def distances_def Let_def split: option.splits if_splits)

text \<open>
  C7: the award cost of a city pair is the same in both directions, for the domestic and
  for the international chart; a pair that the distance table has in neither direction
  is costed at the default distance of 1000 miles, again in both directions.
\<close>

theorem get_award_cost_symmetric:
  "get_award_cost a b intl = get_award_cost b a intl
   \<and> (map_of distances (a, b) = None \<and> map_of distances (b, a) = None
        \<longrightarrow> calculate_distance a b = 1000 \<and> calculate_distance b a = 1000)"
  by (simp add: get_award_cost_def calculate_distance_sym [of a b])
     (simp add: calculate_distance_def)

theorem get_award_cost_symmetric_witness:
  "map_of distances (''SEA'', ''MIA'') = None \<and> map_of distances (''MIA'', ''SEA'') = None
   \<and> calculate_distance ''SEA'' ''MIA'' = 1000
   \<and> get_award_cost ''LAX'' ''JFK'' True = get_award_cost ''JFK'' ''LAX'' True
   \<and> get_award_cost ''LAX'' ''JFK'' True = 40000"
  using get_award_cost_symmetric [of "''SEA''" "''MIA''" False]
        get_award_cost_symmetric [of "''LAX''" "''JFK''" True]
  by (simp add: distances_def get_award_cost_def calculate_distance_def load_award_charts_def)

subsection \<open>Synthetic savings\<close>

text \<open>
  C6: \<open>calculate_synthetic_savings\<close> returns the difference of the two costs as savings,
  savings / direct cost * 100 as percentage for a positive direct cost and 0 otherwise,
  and is worthwhile exactly when the savings are positive and the percentage exceeds 10.
  For (1000, 1200) the savings are -200 and not worthwhile; for (1000, 800) they are
  200, 20 percent, and worthwhile.
\<close>

theorem calculate_synthetic_savings_spec:
  "savings (calculate_synthetic_savings d l) = d - l
   \<and> savings_percentage (calculate_synthetic_savings d l) =
       (if d > 0 then (d - l) / d * 100 else 0)
   \<and> is_worthwhile (calculate_synthetic_savings d l) =
       (savings (calculate_synthetic_savings d l) > 0
        \<and> savings_percentage (calculate_synthetic_savings d l) > 10)
   \<and> savings (calculate_synthetic_savings 1000 1200) = - 200
   \<and> \<not> is_worthwhile (calculate_synthetic_savings 1000 1200)
   \<and> savings (calculate_synthetic_savings 1000 800) = 200
   \<and> savings_percentage (calculate_synthetic_savings 1000 800) = 20
   \<and> is_worthwhile (calculate_synthetic_savings 1000 800)"
  by (simp add: calculate_synthetic_savings_def Let_def)

subsection \<open>Route ranking\<close>

lemma analyse_route_fields:
  "va_route (analyse_route fl r) = r"
  "va_total_cost (analyse_route fl r) = total_cost fl r"
  "efficiency_score (analyse_route fl r) =
     (if total_cost fl r > 0 then fl (1000 / total_cost fl r) else 0)"
  "complexity_penalty (analyse_route fl r) =
     fl (fl (real (length (route_segments r))) * fl 0.1)"
  "final_score (analyse_route fl r) =
     fl (efficiency_score (analyse_route fl r) - complexity_penalty (analyse_route fl r))"
  by (simp_all add: analyse_route_def Let_def)

lemma rank_routes_entries:
  "x \<in> set (rank_routes_by_value fl rs) \<Longrightarrow> x = analyse_route fl (va_route x)"
  by (auto simp: rank_routes_by_value_def set_sort_desc analyse_route_fields)

lemma final_score_antitone:
  assumes "mono fl"
    and "length (route_segments a) = length (route_segments b)"
    and "0 < total_cost fl a" and "total_cost fl a < total_cost fl b"
  shows "final_score (analyse_route fl b) \<le> final_score (analyse_route fl a)"
proof -
  have "1000 / total_cost fl b \<le> 1000 / total_cost fl a"
    using assms(3,4) by (simp add: frac_le)
  then have "fl (1000 / total_cost fl b) \<le> fl (1000 / total_cost fl a)"
    using assms(1) by (rule monoD [rotated])
  then have "fl (1000 / total_cost fl b) - fl (fl (real (length (route_segments b))) * fl 0.1)
      \<le> fl (1000 / total_cost fl a) - fl (fl (real (length (route_segments a))) * fl 0.1)"
    using assms(2) by simp
  then have "fl (fl (1000 / total_cost fl b) - fl (fl (real (length (route_segments b))) * fl 0.1))
      \<le> fl (fl (1000 / total_cost fl a) - fl (fl (real (length (route_segments a))) * fl 0.1))"
    using assms(1) by (rule monoD [rotated])
  then show ?thesis
    using assms(3,4) by (simp add: analyse_route_fields)
qed

text \<open>
  A monotone rounding can give routes of different positive cost the same score: this
  is why the comparison below is not strict.
\<close>

lemma rounding_can_tie:
  "mono whole \<and> total_cost whole cheap_route < total_cost whole dear_route
   \<and> final_score (analyse_route whole cheap_route) = final_score (analyse_route whole dear_route)"
proof -
  have "mono whole"
    by (simp add: mono_def whole_def ceiling_mono)
  moreover have "\<lceil>1 / 2 :: real\<rceil> = 1"
    by (rule ceiling_unique) simp_all
  ultimately show ?thesis
    by (simp add: whole_def analyse_route_def total_cost_def free_route_def cheap_route_def
          dear_route_def Let_def)
qed

text \<open>
  C4 (as stated, refuted): a route with a total cost of 0 has the guarded efficiency
  score 0, so it scores below a route of the same segment count that costs 1000. All
  numbers of this example are exact in doubles.
\<close>

theorem rank_routes_free_route_counterexample:
  "length (route_segments free_route) = length (route_segments cheap_route)
   \<and> total_cost exact free_route < total_cost exact cheap_route
   \<and> map final_score (rank_routes_by_value exact [free_route, cheap_route]) = [1, 0]
   \<and> map va_route (rank_routes_by_value exact [free_route, cheap_route])
       = [cheap_route, free_route]"
  by (simp add: rank_routes_by_value_def sort_desc_def analyse_route_def total_cost_def
        free_route_def cheap_route_def exact_def Let_def)

text \<open>
  C4 (amended): \<open>rank_routes_by_value\<close> returns one entry per route, with efficiency
  score 1000 / total cost (0 for a total cost of zero or below), complexity penalty
  0.1 per segment and final score efficiency - penalty, each operation rounded. Of two
  ranked routes with equal segment count, the one with the lower total cost has a
  final score that is not lower than the other's, provided that lower total cost is
  positive and the rounding is monotone. (Strictly higher it is not in general: two
  close costs can round to the same score.)
\<close>

theorem rank_routes_by_value_lower_cost_scores_higher:
  assumes "mono fl"
  shows "mset (map va_route (rank_routes_by_value fl rs)) = mset rs
   \<and> (\<forall>x \<in> set (rank_routes_by_value fl rs).
        efficiency_score x =
          (if total_cost fl (va_route x) > 0 then fl (1000 / total_cost fl (va_route x)) else 0)
        \<and> final_score x =
            fl (efficiency_score x
                - fl (fl (real (length (route_segments (va_route x)))) * fl 0.1)))
   \<and> (\<forall>x \<in> set (rank_routes_by_value fl rs). \<forall>y \<in> set (rank_routes_by_value fl rs).
        length (route_segments (va_route x)) = length (route_segments (va_route y))
        \<and> 0 < total_cost fl (va_route x)
        \<and> total_cost fl (va_route x) < total_cost fl (va_route y)
        \<longrightarrow> final_score y \<le> final_score x)"
proof -
  have perm: "mset (map va_route (rank_routes_by_value fl rs)) = mset rs"
  proof -
    have "mset (map va_route (rank_routes_by_value fl rs)) =
            image_mset va_route (mset (map (analyse_route fl) rs))"
      by (simp add: rank_routes_by_value_def mset_sort_desc)
    also have "\<dots> = mset rs"
      by (simp add: multiset.map_comp comp_def analyse_route_fields)
    finally show ?thesis .
  qed
  have fields: "\<forall>x \<in> set (rank_routes_by_value fl rs).
        efficiency_score x =
          (if total_cost fl (va_route x) > 0 then fl (1000 / total_cost fl (va_route x)) else 0)
        \<and> final_score x =
            fl (efficiency_score x
                - fl (fl (real (length (route_segments (va_route x)))) * fl 0.1))"
  proof
    fix x assume "x \<in> set (rank_routes_by_value fl rs)"
    then have "x = analyse_route fl (va_route x)" by (rule rank_routes_entries)
    then show "efficiency_score x =
          (if total_cost fl (va_route x) > 0 then fl (1000 / total_cost fl (va_route x)) else 0)
        \<and> final_score x =
            fl (efficiency_score x
                - fl (fl (real (length (route_segments (va_route x)))) * fl 0.1))"
      by (metis analyse_route_fields(3,4,5))
  qed
  have order: "\<forall>x \<in> set (rank_routes_by_value fl rs). \<forall>y \<in> set (rank_routes_by_value fl rs).
        length (route_segments (va_route x)) = length (route_segments (va_route y))
        \<and> 0 < total_cost fl (va_route x)
        \<and> total_cost fl (va_route x) < total_cost fl (va_route y)
        \<longrightarrow> final_score y \<le> final_score x"
  proof (intro ballI impI)
    fix x y
    assume x: "x \<in> set (rank_routes_by_value fl rs)"
      and y: "y \<in> set (rank_routes_by_value fl rs)"
      and h: "length (route_segments (va_route x)) = length (route_segments (va_route y))
        \<and> 0 < total_cost fl (va_route x)
        \<and> total_cost fl (va_route x) < total_cost fl (va_route y)"
    have "final_score (analyse_route fl (va_route y))
            \<le> final_score (analyse_route fl (va_route x))"
      using assms h by (intro final_score_antitone) simp_all
    then show "final_score y \<le> final_score x"
      using rank_routes_entries [OF x] rank_routes_entries [OF y] by simp
  qed
  from perm fields order show ?thesis by blast
qed

theorem rank_routes_by_value_lower_cost_scores_higher_witness:
  "mset (map va_route (rank_routes_by_value exact [dear_route, cheap_route]))
     = mset [dear_route, cheap_route]
   \<and> mono exact
   \<and> map va_route (rank_routes_by_value exact [dear_route, cheap_route])
       = [cheap_route, dear_route]
   \<and> length (route_segments cheap_route) = length (route_segments dear_route)
   \<and> 0 < total_cost exact cheap_route
   \<and> total_cost exact cheap_route < total_cost exact dear_route
   \<and> map final_score (rank_routes_by_value exact [dear_route, cheap_route]) = [1, 1 / 2]
   \<and> map efficiency_score (rank_routes_by_value exact [dear_route, cheap_route]) = [1, 1 / 2]"
proof -
  have m: "mono exact"
    by (simp add: mono_def exact_def)
  have perm: "mset (map va_route (rank_routes_by_value exact [dear_route, cheap_route]))
     = mset [dear_route, cheap_route]"
    using rank_routes_by_value_lower_cost_scores_higher [OF m, of "[dear_route, cheap_route]"]
    by (elim conjE)
  have run: "map va_route (rank_routes_by_value exact [dear_route, cheap_route])
       = [cheap_route, dear_route]
   \<and> length (route_segments cheap_route) = length (route_segments dear_route)
   \<and> 0 < total_cost exact cheap_route
   \<and> total_cost exact cheap_route < total_cost exact dear_route
   \<and> map final_score (rank_routes_by_value exact [dear_route, cheap_route]) = [1, 1 / 2]
   \<and> map efficiency_score (rank_routes_by_value exact [dear_route, cheap_route]) = [1, 1 / 2]"
    by (simp add: rank_routes_by_value_def sort_desc_def analyse_route_def total_cost_def
          free_route_def cheap_route_def dear_route_def exact_def Let_def)
  from perm m run show ?thesis by blast
qed

subsection \<open>Duration parsing\<close>

lemma py_float_small: "\<bar>n\<bar> < 2 ^ 53 \<Longrightarrow> py_float n = Inr (real_of_int n)"
proof -
  assume small: "\<bar>n\<bar> < 2 ^ 53"
  have "bitlen \<bar>n\<bar> \<le> 53"
  proof (cases "\<bar>n\<bar> > 0")
    case True
    from bitlen_bounds [OF True] small
    have lt: "(2::int) ^ nat (bitlen \<bar>n\<bar> - 1) < 2 ^ 53" by linarith
    have "nat (bitlen \<bar>n\<bar> - 1) < 53"
      by (rule power_less_imp_less_exp [OF _ lt]) simp
    then show ?thesis by linarith
  next
    case False
    then show ?thesis by (simp add: bitlen_eq_zero_iff [THEN iffD2])
  qed
  then show ?thesis by (simp add: py_float_def Let_def)
qed

lemma py_float_0: "py_float 0 = Inr 0"
  by (simp add: py_float_small)

lemma in_set_dropWhile: "x \<in> set xs \<Longrightarrow> \<not> P x \<Longrightarrow> x \<in> set (dropWhile P xs)"
  by (induction xs) auto

lemma in_set_strip: "c \<in> set s \<Longrightarrow> \<not> is_space c \<Longrightarrow> c \<in> set (strip s)"
proof -
  assume c: "c \<in> set s" and ns: "\<not> is_space c"
  then have "c \<in> set (rev (dropWhile is_space s))"
    by (simp add: in_set_dropWhile)
  then have "c \<in> set (dropWhile is_space (rev (dropWhile is_space s)))"
    using ns by (rule in_set_dropWhile)
  then show ?thesis by (simp add: strip_def)
qed

lemma int_digits_bad_char:
  "c \<in> set cs \<Longrightarrow> \<not> is_digit c \<Longrightarrow> c \<noteq> CHR ''_'' \<Longrightarrow> int_digits acc cs = None"
proof (induction acc cs rule: int_digits.induct)
  case (1 acc)
  then show ?case by simp
next
  case (2 acc x xs)
  show ?case
  proof (cases "is_digit x")
    case True
    with 2 show ?thesis by auto
  next
    case False
    show ?thesis
    proof (cases "x = CHR ''_''")
      case underscore: True
      show ?thesis
      proof (cases xs)
        case Nil
        with False underscore show ?thesis by simp
      next
        case (Cons d ds)
        show ?thesis
        proof (cases "is_digit d")
          case True
          with 2 False underscore Cons show ?thesis by auto
        next
          case nd: False
          with False underscore Cons show ?thesis by simp
        qed
      qed
    next
      case False
      with \<open>\<not> is_digit x\<close> show ?thesis by simp
    qed
  qed
qed

lemma py_int_bad_char:
  assumes "c \<in> set t" and "\<not> is_digit c" and "\<not> is_space c"
    and "c \<noteq> CHR ''_''" and "c \<noteq> CHR ''+''" and "c \<noteq> CHR ''-''"
  shows "py_int t = Inl ValueError"
proof -
  define st where "st = strip t"
  define u where "u = (case st of [] \<Rightarrow> [] | x # r \<Rightarrow> if x = CHR ''-'' \<or> x = CHR ''+'' then r else st)"
  have "c \<in> set st"
    using assms(1,3) by (simp add: st_def in_set_strip)
  then have cu: "c \<in> set u"
    using assms(5,6) by (cases st) (auto simp: u_def)
  then obtain x xs where u: "u = x # xs" by (cases u) auto
  show ?thesis
  proof (cases "is_digit x")
    case True
    with cu u assms(2) have "c \<in> set xs" by auto
    then have "int_digits (digit_val x) xs = None"
      using assms(2,4) by (rule int_digits_bad_char)
    with u True show ?thesis
      by (simp add: py_int_def Let_def st_def [symmetric] u_def [symmetric])
  next
    case False
    with u show ?thesis
      by (simp add: py_int_def Let_def st_def [symmetric] u_def [symmetric])
  qed
qed

lemma py_int_empty: "py_int [] = Inl ValueError"
  by (simp add: py_int_def strip_def)

lemma direct_routes_of_durations:
  "map duration_hours (direct_routes_of org dst offers) =
     map (\<lambda>x. parse_duration (duration x)) (filter (\<lambda>x. stops x = 0) offers)"
  by (induction offers) (simp_all add: Let_def)

lemmas parse_eval =
  parse_duration_def parse_duration_try_def py_int_def py_float_small strip_def
  is_space_def is_digit_def digit_val_def

text \<open>
  C9 (as stated, refuted): a malformed duration does not always give the default of 5
  hours. A string without an \<open>H\<close> raises nothing in the parser and gives 0 hours.
\<close>

theorem parse_duration_no_hours_counterexample:
  "CHR ''H'' \<notin> set ''abc''
   \<and> parse_duration ''abc'' = 0
   \<and> parse_duration ''abc'' \<noteq> 5"
  by (simp add: parse_eval Let_def)

text \<open>
  C9 (amended): \<open>_parse_duration\<close> returns a number for every string and never raises.
  With \<open>b\<close> the string after an optional leading \<open>PT\<close> and \<open>t\<close> the part of \<open>b\<close>
  before its first \<open>H\<close>: if \<open>b\<close> has no \<open>H\<close> the result is 0; if \<open>t\<close> is not an
  integer for \<open>int\<close> (it is empty, or holds a character that is no digit, space, sign
  or underscore, among others) or its conversion to a float overflows, the result is
  the default 5; otherwise the result is the integer as a float, which is the integer
  itself below 2 to the power 53. A route search therefore builds a route for every
  zero-stop offer, whatever its duration string is.
\<close>

theorem parse_duration_spec:
  assumes "b = (if take 2 s = ''PT'' then drop 2 s else s)"
    and "t = takeWhile (\<lambda>c. c \<noteq> CHR ''H'') b"
  shows "(CHR ''H'' \<notin> set b \<longrightarrow> parse_duration s = 0)
   \<and> (CHR ''H'' \<in> set b \<and> py_int t = Inl e \<longrightarrow> parse_duration s = 5)
   \<and> (CHR ''H'' \<in> set b \<and> py_int t = Inr n \<and> py_float n = Inl e \<longrightarrow> parse_duration s = 5)
   \<and> (CHR ''H'' \<in> set b \<and> py_int t = Inr n \<and> py_float n = Inr v \<longrightarrow> parse_duration s = v)
   \<and> (CHR ''H'' \<in> set b \<and> py_int t = Inr n \<and> \<bar>n\<bar> < 2 ^ 53
        \<longrightarrow> parse_duration s = real_of_int n)
   \<and> (CHR ''H'' \<in> set b \<and> t = [] \<longrightarrow> parse_duration s = 5)
   \<and> (CHR ''H'' \<in> set b
        \<and> (\<exists>c \<in> set t. \<not> is_digit c \<and> \<not> is_space c
               \<and> c \<noteq> CHR ''_'' \<and> c \<noteq> CHR ''+'' \<and> c \<noteq> CHR ''-'')
        \<longrightarrow> parse_duration s = 5)
   \<and> map duration_hours (direct_routes_of org dst offers) =
       map (\<lambda>x. parse_duration (duration x)) (filter (\<lambda>x. stops x = 0) offers)"
proof -
  have body: "parse_duration_try s =
      (if CHR ''H'' \<in> set b
       then (case py_int t of Inl e \<Rightarrow> Inl e | Inr hours \<Rightarrow> py_float hours)
       else py_float 0)"
    by (simp add: parse_duration_try_def assms Let_def)
  have c1: "CHR ''H'' \<notin> set b \<longrightarrow> parse_duration s = 0"
    by (simp add: parse_duration_def body py_float_0)
  have c2: "CHR ''H'' \<in> set b \<and> py_int t = Inl e \<longrightarrow> parse_duration s = 5"
    by (simp add: parse_duration_def body)
  have c3: "CHR ''H'' \<in> set b \<and> py_int t = Inr n \<and> py_float n = Inl e
      \<longrightarrow> parse_duration s = 5"
    by (simp add: parse_duration_def body)
  have c4: "CHR ''H'' \<in> set b \<and> py_int t = Inr n \<and> py_float n = Inr v
      \<longrightarrow> parse_duration s = v"
    by (simp add: parse_duration_def body)
  have c5: "CHR ''H'' \<in> set b \<and> py_int t = Inr n \<and> \<bar>n\<bar> < 2 ^ 53
      \<longrightarrow> parse_duration s = real_of_int n"
    by (simp add: parse_duration_def body py_float_small)
  have c6: "CHR ''H'' \<in> set b \<and> t = [] \<longrightarrow> parse_duration s = 5"
    by (simp add: parse_duration_def body py_int_empty)
  have c7: "CHR ''H'' \<in> set b
        \<and> (\<exists>c \<in> set t. \<not> is_digit c \<and> \<not> is_space c
               \<and> c \<noteq> CHR ''_'' \<and> c \<noteq> CHR ''+'' \<and> c \<noteq> CHR ''-'')
        \<longrightarrow> parse_duration s = 5"
  proof
    assume h: "CHR ''H'' \<in> set b
        \<and> (\<exists>c \<in> set t. \<not> is_digit c \<and> \<not> is_space c
               \<and> c \<noteq> CHR ''_'' \<and> c \<noteq> CHR ''+'' \<and> c \<noteq> CHR ''-'')"
    then have "py_int t = Inl ValueError"
      by (auto intro: py_int_bad_char)
    with h show "parse_duration s = 5"
      by (simp add: parse_duration_def body)
  qed
  from c1 c2 c3 c4 c5 c6 c7 direct_routes_of_durations show ?thesis by blast
qed

theorem parse_duration_spec_witness:
  "parse_duration ''PTxH'' = 5
   \<and> parse_duration ''PT7H30M'' = 7
   \<and> parse_duration ''PT45M'' = 0
   \<and> parse_duration ''PTH'' = 5
   \<and> parse_duration ''-3H'' = - 3
   \<and> py_int ''x'' = Inl ValueError
   \<and> py_int ''7'' = Inr 7
   \<and> py_int '' 1_0 '' = Inr 10
   \<and> py_float 7 = Inr 7
   \<and> py_float (2 ^ 1024) = Inl OverflowError"
proof -
  have i1: "py_int ''x'' = Inl ValueError" and i2: "py_int ''7'' = Inr 7"
    and i5: "py_int '' 1_0 '' = Inr 10" and i6: "py_int ''-3'' = Inr (- 3)"
    by (simp_all add: parse_eval Let_def)
  have f7: "py_float 7 = Inr 7"
    by (simp add: py_float_small)
  have "bitlen 1 = 1"
    by (simp add: bitlen_alt_def)
  with bitlen_pow2 [of 1 1024] have "bitlen (2 ^ 1024) = 1025" by simp
  then have ovf: "py_float (2 ^ 1024) = Inl OverflowError"
    by (simp add: py_float_def Let_def flip: power_diff)
  have r1: "parse_duration ''PTxH'' = 5"
  proof -
    have b: "''xH'' = (if take 2 ''PTxH'' = ''PT'' then drop 2 ''PTxH'' else ''PTxH'')"
      by simp
    have t: "''x'' = takeWhile (\<lambda>c. c \<noteq> CHR ''H'') ''xH''"
      by simp
    have h: "CHR ''H'' \<in> set ''xH'' \<and> py_int ''x'' = Inl ValueError"
      using i1 by simp
    from parse_duration_spec [OF b t, of ValueError 0 0 "[]" "[]" "[]"] h
    show ?thesis by blast
  qed
  have r2: "parse_duration ''PT7H30M'' = 7"
  proof -
    have b: "''7H30M'' =
        (if take 2 ''PT7H30M'' = ''PT'' then drop 2 ''PT7H30M'' else ''PT7H30M'')"
      by simp
    have t: "''7'' = takeWhile (\<lambda>c. c \<noteq> CHR ''H'') ''7H30M''"
      by simp
    have h: "CHR ''H'' \<in> set ''7H30M'' \<and> py_int ''7'' = Inr 7 \<and> py_float 7 = Inr 7"
      using i2 f7 by simp
    from parse_duration_spec [OF b t, of ValueError 7 7 "[]" "[]" "[]"] h
    show ?thesis by blast
  qed
  have r3: "parse_duration ''PT45M'' = 0"
  proof -
    have b: "''45M'' = (if take 2 ''PT45M'' = ''PT'' then drop 2 ''PT45M'' else ''PT45M'')"
      by simp
    have t: "''45M'' = takeWhile (\<lambda>c. c \<noteq> CHR ''H'') ''45M''"
      by simp
    have h: "CHR ''H'' \<notin> set ''45M''"
      by simp
    from parse_duration_spec [OF b t, of ValueError 0 0 "[]" "[]" "[]"] h
    show ?thesis by blast
  qed
  have r4: "parse_duration ''PTH'' = 5"
  proof -
    have b: "''H'' = (if take 2 ''PTH'' = ''PT'' then drop 2 ''PTH'' else ''PTH'')"
      by simp
    have t: "[] = takeWhile (\<lambda>c. c \<noteq> CHR ''H'') ''H''"
      by simp
    have h: "CHR ''H'' \<in> set ''H'' \<and> ([] :: string) = []"
      by simp
    from parse_duration_spec [OF b t, of ValueError 0 0 "[]" "[]" "[]"] h
    show ?thesis by blast
  qed
  have r7: "parse_duration ''-3H'' = - 3"
  proof -
    have b: "''-3H'' = (if take 2 ''-3H'' = ''PT'' then drop 2 ''-3H'' else ''-3H'')"
      by simp
    have t: "''-3'' = takeWhile (\<lambda>c. c \<noteq> CHR ''H'') ''-3H''"
      by simp
    have h: "CHR ''H'' \<in> set ''-3H'' \<and> py_int ''-3'' = Inr (- 3)
        \<and> \<bar>- 3 :: int\<bar> < 2 ^ 53"
      using i6 by simp
    from parse_duration_spec [OF b t, of ValueError "- 3" 0 "[]" "[]" "[]"] h
    have "parse_duration ''-3H'' = real_of_int (- 3)" by blast
    then show ?thesis by simp
  qed
  from r1 r2 r3 r4 r7 i1 i2 i5 f7 ovf show ?thesis by blast
qed

subsection \<open>Layover routes\<close>

lemma layover_routes_of_hubs:
  "map layover_airports (layover_routes_of self org dst dt hubs) =
     map (\<lambda>h. Some [h])
       (filter (\<lambda>h. h \<noteq> org \<and> h \<noteq> dst
                  \<and> search_flights self org h dt None 1 1 \<noteq> []
                  \<and> search_flights self h dst dt None 1 1 \<noteq> []) hubs)"
  by (induction hubs) (simp_all add: Let_def)

lemma layover_routes_of_fields:
  "r \<in> set (layover_routes_of self org dst dt hubs) \<Longrightarrow>
     \<exists>hub \<in> set hubs.
        hub \<noteq> org \<and> hub \<noteq> dst \<and> layover_airports r = Some [hub]
        \<and> search_flights self org hub dt None 1 1 \<noteq> []
        \<and> search_flights self hub dst dt None 1 1 \<noteq> []
        \<and> total_miles r = get_award_cost org hub False + get_award_cost hub dst False
        \<and> total_fees r = 75
        \<and> duration_hours r =
            parse_duration (duration (hd (search_flights self org hub dt None 1 1)))
            + parse_duration (duration (hd (search_flights self hub dst dt None 1 1))) + 2
        \<and> route_segments r =
            offer_segments (hd (search_flights self org hub dt None 1 1))
            @ offer_segments (hd (search_flights self hub dst dt None 1 1))"
proof (induction hubs)
  case Nil
  then show ?case by simp
next
  case (Cons hub hubs)
  show ?case
  proof (cases "r \<in> set (layover_routes_of self org dst dt hubs)")
    case True
    from Cons.IH [OF True] show ?thesis by auto
  next
    case False
    with Cons.prems show ?thesis
      by (auto simp: Let_def split: if_splits)
  qed
qed

text \<open>
  C5: \<open>find_layover_routes\<close> skips a hub that is the origin or the destination, and
  produces a route for a remaining hub exactly when both searches (origin to hub, hub
  to destination) return an offer; the routes stand in hub order, one per such hub.
  Each route has as total miles the sum of the two legs' award costs, total fees 75,
  as duration the two legs' durations plus 2 hours, and as segments the first leg's
  segments followed by the second leg's. Without a hub list the first three major
  hubs are the candidates.
\<close>

theorem find_layover_routes_spec:
  "map layover_airports (find_layover_routes self org dst dt (Some hubs)) =
     map (\<lambda>h. Some [h])
       (filter (\<lambda>h. h \<noteq> org \<and> h \<noteq> dst
                  \<and> search_flights self org h dt None 1 1 \<noteq> []
                  \<and> search_flights self h dst dt None 1 1 \<noteq> []) hubs)
   \<and> (\<forall>r \<in> set (find_layover_routes self org dst dt (Some hubs)).
        \<exists>hub \<in> set hubs.
          hub \<noteq> org \<and> hub \<noteq> dst \<and> layover_airports r = Some [hub]
          \<and> search_flights self org hub dt None 1 1 \<noteq> []
          \<and> search_flights self hub dst dt None 1 1 \<noteq> []
          \<and> total_miles r = get_award_cost org hub False + get_award_cost hub dst False
          \<and> total_fees r = 75
          \<and> duration_hours r =
              parse_duration (duration (hd (search_flights self org hub dt None 1 1)))
              + parse_duration (duration (hd (search_flights self hub dst dt None 1 1))) + 2
          \<and> route_segments r =
              offer_segments (hd (search_flights self org hub dt None 1 1))
              @ offer_segments (hd (search_flights self hub dst dt None 1 1)))
   \<and> find_layover_routes self org dst dt None =
       find_layover_routes self org dst dt (Some [''ATL'', ''DFW'', ''ORD''])"
proof -
  have a: "map layover_airports (find_layover_routes self org dst dt (Some hubs)) =
     map (\<lambda>h. Some [h])
       (filter (\<lambda>h. h \<noteq> org \<and> h \<noteq> dst
                  \<and> search_flights self org h dt None 1 1 \<noteq> []
                  \<and> search_flights self h dst dt None 1 1 \<noteq> []) hubs)"
    by (simp add: find_layover_routes_def layover_routes_of_hubs)
  have c: "find_layover_routes self org dst dt None =
       find_layover_routes self org dst dt (Some [''ATL'', ''DFW'', ''ORD''])"
    by (simp add: find_layover_routes_def major_hubs_def)
  show ?thesis
    using a c layover_routes_of_fields [of _ self org dst dt hubs]
    unfolding find_layover_routes_def option.case
    by blast
qed

lemmas mock_search_eval =
  find_layover_routes_def find_direct_routes_def search_flights_def offline_client_def
  is_available_def get_mock_flights_def client_calculate_distance_def client_distances_def
  get_award_cost_def calculate_distance_def distances_def load_award_charts_def
  parse_duration_def parse_duration_try_def py_int_def py_float_small strip_def
  is_space_def is_digit_def digit_val_def str_int_def char_of_def bit_Suc_0_iff

theorem find_layover_routes_spec_witness:
  "map layover_airports
     (find_layover_routes offline_client ''JFK'' ''LAX'' sample_date
        (Some [''JFK'', ''ORD'', ''LAX''])) =
     map (\<lambda>h. Some [h])
       (filter (\<lambda>h. h \<noteq> ''JFK'' \<and> h \<noteq> ''LAX''
                  \<and> search_flights offline_client ''JFK'' h sample_date None 1 1 \<noteq> []
                  \<and> search_flights offline_client h ''LAX'' sample_date None 1 1 \<noteq> [])
          [''JFK'', ''ORD'', ''LAX''])
   \<and> map layover_airports
       (find_layover_routes offline_client ''JFK'' ''LAX'' sample_date
          (Some [''JFK'', ''ORD'', ''LAX''])) = [Some [''ORD'']]
   \<and> map total_miles
       (find_layover_routes offline_client ''JFK'' ''LAX'' sample_date
          (Some [''JFK'', ''ORD'', ''LAX''])) = [37500]
   \<and> map total_fees
       (find_layover_routes offline_client ''JFK'' ''LAX'' sample_date
          (Some [''JFK'', ''ORD'', ''LAX''])) = [75]
   \<and> map duration_hours
       (find_layover_routes offline_client ''JFK'' ''LAX'' sample_date
          (Some [''JFK'', ''ORD'', ''LAX''])) = [8]
   \<and> map (\<lambda>r. length (route_segments r))
       (find_layover_routes offline_client ''JFK'' ''LAX'' sample_date
          (Some [''JFK'', ''ORD'', ''LAX''])) = [2]"
proof -
  have hubs: "map layover_airports
     (find_layover_routes offline_client ''JFK'' ''LAX'' sample_date
        (Some [''JFK'', ''ORD'', ''LAX''])) =
     map (\<lambda>h. Some [h])
       (filter (\<lambda>h. h \<noteq> ''JFK'' \<and> h \<noteq> ''LAX''
                  \<and> search_flights offline_client ''JFK'' h sample_date None 1 1 \<noteq> []
                  \<and> search_flights offline_client h ''LAX'' sample_date None 1 1 \<noteq> [])
          [''JFK'', ''ORD'', ''LAX''])"
    using find_layover_routes_spec
            [of offline_client "''JFK''" "''LAX''" sample_date "[''JFK'', ''ORD'', ''LAX'']"]
    by (elim conjE)
  have run: "map layover_airports
       (find_layover_routes offline_client ''JFK'' ''LAX'' sample_date
          (Some [''JFK'', ''ORD'', ''LAX''])) = [Some [''ORD'']]
   \<and> map total_miles
       (find_layover_routes offline_client ''JFK'' ''LAX'' sample_date
          (Some [''JFK'', ''ORD'', ''LAX''])) = [37500]
   \<and> map total_fees
       (find_layover_routes offline_client ''JFK'' ''LAX'' sample_date
          (Some [''JFK'', ''ORD'', ''LAX''])) = [75]
   \<and> map duration_hours
       (find_layover_routes offline_client ''JFK'' ''LAX'' sample_date
          (Some [''JFK'', ''ORD'', ''LAX''])) = [8]
   \<and> map (\<lambda>r. length (route_segments r))
       (find_layover_routes offline_client ''JFK'' ''LAX'' sample_date
          (Some [''JFK'', ''ORD'', ''LAX''])) = [2]"
    by (simp add: mock_search_eval Let_def)
  from hubs run show ?thesis by (rule conjI)
qed

subsection \<open>Award chart of layover legs\<close>

lemma direct_routes_of_miles:
  "r \<in> set (direct_routes_of org dst offers) \<Longrightarrow>
     total_miles r = get_award_cost org dst (calculate_distance org dst > 2000)"
  by (induction offers) (auto simp: Let_def split: if_splits)

text \<open>
  C10: every layover route costs, in miles, the sum of its two legs priced with the
  international flag false, that is from the domestic chart (7500, 12500, 20000, 25000
  or 35000 by the leg's distance), also for a leg longer than 2000 miles. A direct
  route is priced with the flag set exactly when its distance exceeds 2000 miles.
\<close>

theorem layover_legs_use_domestic_chart:
  "(\<forall>r \<in> set (find_layover_routes self org dst dt hub_airports).
      \<exists>hub. layover_airports r = Some [hub]
        \<and> total_miles r = get_award_cost org hub False + get_award_cost hub dst False)
   \<and> get_award_cost a b False =
       (if calculate_distance a b \<le> 500 then 7500
        else if calculate_distance a b \<le> 1000 then 12500
        else if calculate_distance a b \<le> 1500 then 20000
        else if calculate_distance a b \<le> 2000 then 25000
        else 35000)
   \<and> (\<forall>r \<in> set (find_direct_routes self org dst dt).
        total_miles r = get_award_cost org dst (calculate_distance org dst > 2000))"
proof -
  have legs: "\<forall>r \<in> set (find_layover_routes self org dst dt hub_airports).
      \<exists>hub. layover_airports r = Some [hub]
        \<and> total_miles r = get_award_cost org hub False + get_award_cost hub dst False"
  proof
    fix r assume "r \<in> set (find_layover_routes self org dst dt hub_airports)"
    then obtain hubs where "r \<in> set (layover_routes_of self org dst dt hubs)"
      by (auto simp: find_layover_routes_def)
    from layover_routes_of_fields [OF this]
    show "\<exists>hub. layover_airports r = Some [hub]
        \<and> total_miles r = get_award_cost org hub False + get_award_cost hub dst False"
      by blast
  qed
  have chart: "get_award_cost a b False =
       (if calculate_distance a b \<le> 500 then 7500
        else if calculate_distance a b \<le> 1000 then 12500
        else if calculate_distance a b \<le> 1500 then 20000
        else if calculate_distance a b \<le> 2000 then 25000
        else 35000)"
    by (simp add: get_award_cost_def load_award_charts_def Let_def)
  have direct: "\<forall>r \<in> set (find_direct_routes self org dst dt).
        total_miles r = get_award_cost org dst (calculate_distance org dst > 2000)"
    by (simp add: find_direct_routes_def direct_routes_of_miles)
  from legs chart direct show ?thesis by blast
qed

theorem layover_legs_use_domestic_chart_witness:
  "get_award_cost ''JFK'' ''LAX'' False =
       (if calculate_distance ''JFK'' ''LAX'' \<le> 500 then 7500
        else if calculate_distance ''JFK'' ''LAX'' \<le> 1000 then 12500
        else if calculate_distance ''JFK'' ''LAX'' \<le> 1500 then 20000
        else if calculate_distance ''JFK'' ''LAX'' \<le> 2000 then 25000
        else 35000)
   \<and> calculate_distance ''JFK'' ''LAX'' = 2475
   \<and> get_award_cost ''JFK'' ''LAX'' False = 35000
   \<and> get_award_cost ''JFK'' ''LAX'' True = 40000
   \<and> get_award_cost ''LAX'' ''SEA'' False = 12500
   \<and> map total_miles
       (find_layover_routes offline_client ''JFK'' ''SEA'' sample_date (Some [''LAX''])) = [47500]
   \<and> map total_miles (find_direct_routes offline_client ''JFK'' ''LAX'' sample_date) = [40000]"
proof -
  have chart: "get_award_cost ''JFK'' ''LAX'' False =
       (if calculate_distance ''JFK'' ''LAX'' \<le> 500 then 7500
        else if calculate_distance ''JFK'' ''LAX'' \<le> 1000 then 12500
        else if calculate_distance ''JFK'' ''LAX'' \<le> 1500 then 20000
        else if calculate_distance ''JFK'' ''LAX'' \<le> 2000 then 25000
        else 35000)"
    using layover_legs_use_domestic_chart
            [of offline_client "''JFK''" "''SEA''" sample_date "Some [''LAX'']" "''JFK''" "''LAX''"]
    by (elim conjE)
  have run: "calculate_distance ''JFK'' ''LAX'' = 2475
   \<and> get_award_cost ''JFK'' ''LAX'' False = 35000
   \<and> get_award_cost ''JFK'' ''LAX'' True = 40000
   \<and> get_award_cost ''LAX'' ''SEA'' False = 12500
   \<and> map total_miles
       (find_layover_routes offline_client ''JFK'' ''SEA'' sample_date (Some [''LAX''])) = [47500]
   \<and> map total_miles (find_direct_routes offline_client ''JFK'' ''LAX'' sample_date) = [40000]"
    by (simp add: mock_search_eval Let_def)
  from chart run show ?thesis by (rule conjI)
qed

subsection \<open>The recommendation pipeline returns\<close>







subsection \<open>Filtering, ordering and the distinguished picks\<close>







subsection \<open>Determinism on mock and fallback data\<close>








end
